theory Spec2Isabelle
  imports Complex_Main "HOL-Library.Char_ord" "HOL-Library.List_Lexorder"
begin

section \<open>neuroHarmonize: harmonizationLearn.py\<close>

text \<open>
  A shallow embedding of \<^verbatim>\<open>src/neuroHarmonize/harmonizationLearn.py\<close>.
  Floating-point numbers are idealised as \<^typ>\<open>real\<close>: rounding is not modelled,
  and a division by zero (which numpy answers with \<^verbatim>\<open>inf\<close> or \<^verbatim>\<open>nan\<close> and
  a warning) lies outside the model, so every statement that depends on a quotient
  carries the hypothesis that the divisor is not zero.
  Every Python exception is a value \<open>Inl e\<close> of the result type \<open>error + 'a\<close>.
\<close>

subsection \<open>Exceptions\<close>

datatype error =
    KeyError string
  | ValueError string
  | IndexError
  | AttributeError
  | LinAlgError
  | FileNotFoundError
  | ExternalError string

definition bindE :: "error + 'a \<Rightarrow> ('a \<Rightarrow> error + 'b) \<Rightarrow> error + 'b" where
  "bindE m f = (case m of Inl e \<Rightarrow> Inl e | Inr x \<Rightarrow> f x)"

subsection \<open>numpy arrays\<close>

text \<open>
  A two-dimensional array is its shape together with its rows; a one-dimensional
  array is a list. \<open>mk r c f\<close> builds the \<open>r \<times> c\<close> array whose cell \<open>(i, j)\<close> is
  \<open>f i j\<close>, and \<open>cell A i j\<close> reads \<open>A[i, j]\<close>. A shape may have a zero dimension
  (\<open>0 \<times> n\<close> differs from \<open>0 \<times> m\<close>), which a bare list of rows could not express.
\<close>

record ndarray =
  nrows :: nat
  ncols :: nat
  rows :: "real list list"

definition mk :: "nat \<Rightarrow> nat \<Rightarrow> (nat \<Rightarrow> nat \<Rightarrow> real) \<Rightarrow> ndarray" where
  "mk r c f = \<lparr>nrows = r, ncols = c, rows = map (\<lambda>i. map (f i) [0..<c]) [0..<r]\<rparr>"

definition cell :: "ndarray \<Rightarrow> nat \<Rightarrow> nat \<Rightarrow> real" where
  "cell A i j = rows A ! i ! j"

definition shape :: "ndarray \<Rightarrow> nat \<times> nat" where
  "shape A = (nrows A, ncols A)"

text \<open>\<^verbatim>\<open>A.T\<close>\<close>

definition T :: "ndarray \<Rightarrow> ndarray" where
  "T A = mk (ncols A) (nrows A) (\<lambda>i j. cell A j i)"

text \<open>\<^verbatim>\<open>np.ones((r, c))\<close> and \<^verbatim>\<open>np.zeros((r, c))\<close>\<close>

definition ones :: "nat \<Rightarrow> nat \<Rightarrow> ndarray" where
  "ones r c = mk r c (\<lambda>i j. 1)"

definition zeros :: "nat \<Rightarrow> nat \<Rightarrow> ndarray" where
  "zeros r c = mk r c (\<lambda>i j. 0)"

text \<open>
  \<^verbatim>\<open>np.dot\<close> of two two-dimensional arrays: the matrix product, a ValueError when the
  inner dimensions differ.
\<close>

definition dot :: "ndarray \<Rightarrow> ndarray \<Rightarrow> error + ndarray" where
  "dot A B =
     (if ncols A = nrows B then
        Inr (mk (nrows A) (ncols B)
               (\<lambda>i j. sum_list (map (\<lambda>k. cell A i k * cell B k j) [0..<ncols A])))
      else Inl (ValueError ''shapes not aligned''))"

text \<open>
  \<^verbatim>\<open>np.dot\<close> of a one-dimensional array and a two-dimensional one: a one-dimensional
  array with one entry per column.
\<close>

definition dot_vm :: "real list \<Rightarrow> ndarray \<Rightarrow> error + real list" where
  "dot_vm v B =
     (if length v = nrows B then
        Inr (map (\<lambda>j. sum_list (map (\<lambda>k. v ! k * cell B k j) [0..<length v])) [0..<ncols B])
      else Inl (ValueError ''shapes not aligned''))"

text \<open>
  Broadcasting of one dimension: equal lengths, or one of them is 1 and is stretched.
\<close>

definition bdim :: "nat \<Rightarrow> nat \<Rightarrow> nat option" where
  "bdim a b = (if a = b then Some a else if a = 1 then Some b else if b = 1 then Some a else None)"

text \<open>An elementwise binary operation (\<^verbatim>\<open>A - B\<close>, \<^verbatim>\<open>A / B\<close>) with broadcasting.\<close>

definition broadcast :: "(real \<Rightarrow> real \<Rightarrow> real) \<Rightarrow> ndarray \<Rightarrow> ndarray \<Rightarrow> error + ndarray" where
  "broadcast f A B =
     (case (bdim (nrows A) (nrows B), bdim (ncols A) (ncols B)) of
        (Some r, Some c) \<Rightarrow>
          Inr (mk r c (\<lambda>i j.
                 f (cell A (if nrows A = 1 then 0 else i) (if ncols A = 1 then 0 else j))
                   (cell B (if nrows B = 1 then 0 else i) (if ncols B = 1 then 0 else j))))
      | _ \<Rightarrow> Inl (ValueError ''operands could not be broadcast together''))"

text \<open>
  The in-place \<^verbatim>\<open>A += B\<close>: \<open>B\<close> is broadcast to the shape of \<open>A\<close>, which cannot grow.
\<close>

definition iadd :: "ndarray \<Rightarrow> ndarray \<Rightarrow> error + ndarray" where
  "iadd A B =
     (if (nrows B = nrows A \<or> nrows B = 1) \<and> (ncols B = ncols A \<or> ncols B = 1) then
        Inr (mk (nrows A) (ncols A) (\<lambda>i j.
               cell A i j + cell B (if nrows B = 1 then 0 else i) (if ncols B = 1 then 0 else j)))
      else Inl (ValueError ''non-broadcastable output operand''))"

text \<open>An elementwise unary operation (\<^verbatim>\<open>A**2\<close>, \<^verbatim>\<open>np.sqrt(A)\<close>, \<^verbatim>\<open>A / float(n)\<close>).\<close>

definition map_cells :: "(real \<Rightarrow> real) \<Rightarrow> ndarray \<Rightarrow> ndarray" where
  "map_cells f A = mk (nrows A) (ncols A) (\<lambda>i j. f (cell A i j))"

text \<open>\<^verbatim>\<open>A[:n, :]\<close>: the first \<open>n\<close> rows, all of them when there are fewer.\<close>

definition take_rows :: "nat \<Rightarrow> ndarray \<Rightarrow> ndarray" where
  "take_rows n A = mk (min n (nrows A)) (ncols A) (\<lambda>i j. cell A i j)"

text \<open>\<^verbatim>\<open>tmp = np.array(A.copy()); tmp[:, :n] = 0\<close>\<close>

definition zero_first_cols :: "nat \<Rightarrow> ndarray \<Rightarrow> ndarray" where
  "zero_first_cols n A = mk (nrows A) (ncols A) (\<lambda>i j. if j < n then 0 else cell A i j)"

text \<open>\<^verbatim>\<open>v.T.reshape((len(v), 1))\<close>: a one-dimensional array as a column.\<close>

definition reshape_col :: "real list \<Rightarrow> ndarray" where
  "reshape_col v = mk (length v) 1 (\<lambda>i j. v ! i)"

text \<open>\<^verbatim>\<open>A[i, :]\<close> and \<^verbatim>\<open>A[:, j]\<close> as one-dimensional arrays.\<close>

definition row :: "ndarray \<Rightarrow> nat \<Rightarrow> real list" where
  "row A i = map (\<lambda>j. cell A i j) [0..<ncols A]"

definition col :: "ndarray \<Rightarrow> nat \<Rightarrow> error + real list" where
  "col A j = (if j < ncols A then Inr (map (\<lambda>i. cell A i j) [0..<nrows A]) else Inl IndexError)"

text \<open>
  \<^verbatim>\<open>B[:, i] = v\<close>: the column is replaced; a ValueError when the lengths differ, an
  IndexError when there is no such column.
\<close>

definition set_col :: "ndarray \<Rightarrow> nat \<Rightarrow> real list \<Rightarrow> error + ndarray" where
  "set_col B i v =
     (if \<not> i < ncols B then Inl IndexError
      else if length v \<noteq> nrows B then Inl (ValueError ''could not broadcast input array'')
      else Inr (mk (nrows B) (ncols B) (\<lambda>k j. if j = i then v ! k else cell B k j)))"

text \<open>\<^verbatim>\<open>np.concatenate((A, B), axis=1)\<close>\<close>

definition concatenate1 :: "ndarray \<Rightarrow> ndarray \<Rightarrow> error + ndarray" where
  "concatenate1 A B =
     (if nrows A = nrows B then
        Inr (mk (nrows A) (ncols A + ncols B)
               (\<lambda>i j. if j < ncols A then cell A i j else cell B i (j - ncols A)))
      else Inl (ValueError ''all the input array dimensions must match''))"

subsection \<open>\<^verbatim>\<open>str\<close> of a non-negative integer\<close>

definition digit :: "nat \<Rightarrow> char" where
  "digit d = ''0123456789'' ! d"

fun str_nat :: "nat \<Rightarrow> string" where
  "str_nat n = (if n < 10 then [digit n] else str_nat (n div 10) @ [digit (n mod 10)])"

declare str_nat.simps [simp del]

subsection \<open>\<^verbatim>\<open>np.unique\<close>\<close>

text \<open>
  The sorted distinct values; with \<^verbatim>\<open>return_inverse\<close> the position of every input
  value among them; with \<^verbatim>\<open>return_counts\<close> how often each occurs.
\<close>

definition np_unique :: "'a::linorder list \<Rightarrow> 'a list" where
  "np_unique xs = sort (remdups xs)"

fun index_of :: "'a list \<Rightarrow> 'a \<Rightarrow> nat" where
  "index_of [] x = 0"
| "index_of (y # ys) x = (if x = y then 0 else Suc (index_of ys x))"

definition np_unique_inverse :: "'a::linorder list \<Rightarrow> nat list" where
  "np_unique_inverse xs = map (index_of (np_unique xs)) xs"

definition np_unique_counts :: "'a::linorder list \<Rightarrow> nat list" where
  "np_unique_counts xs = map (count_list xs) (np_unique xs)"

subsection \<open>The model bundle and the file system\<close>

text \<open>
  A value of the model dictionary: a two-dimensional array, a one-dimensional array
  (\<^verbatim>\<open>grand_mean\<close>) or a plain integer (\<^verbatim>\<open>n_batch\<close>). The dictionary is an
  association list in insertion order.
\<close>

datatype obj = Arr2 ndarray | Arr1 "real list" | IntObj int

type_synonym model = "(string \<times> obj) list"

text \<open>\<^verbatim>\<open>obj.nbytes\<close>: 8 bytes per float64 cell; an integer has no such attribute.\<close>

fun nbytes :: "obj \<Rightarrow> error + nat" where
  "nbytes (Arr2 A) = Inr (8 * nrows A * ncols A)"
| "nbytes (Arr1 v) = Inr (8 * length v)"
| "nbytes (IntObj n) = Inl AttributeError"

text \<open>
  The part of the world that \<^verbatim>\<open>saveHarmonizationModel\<close> touches: the directories,
  the files with their contents, and the lines printed (\<open>(key, nbytes)\<close> for the line
  \<^verbatim>\<open>'Saving model object: %s, size in MB: %4.2f'\<close>).
\<close>

record world =
  dirs :: "string list"
  files :: "(string \<times> obj) list"
  stdout :: "(string \<times> nat) list"

text \<open>\<^verbatim>\<open>os.path.exists\<close>\<close>

definition path_exists :: "world \<Rightarrow> string \<Rightarrow> bool" where
  "path_exists w p \<longleftrightarrow> p \<in> set (dirs w) \<or> p \<in> fst ` set (files w)"

text \<open>
  \<^verbatim>\<open>os.makedirs\<close>, called on a path that does not exist: the empty path is refused
  (FileNotFoundError), any other path becomes a directory.
\<close>

definition makedirs :: "string \<Rightarrow> world \<Rightarrow> error + world" where
  "makedirs p w = (if p = [] then Inl FileNotFoundError else Inr (w\<lparr>dirs := p # dirs w\<rparr>))"

text \<open>\<^verbatim>\<open>np.save(path, obj)\<close> creates or overwrites the file at \<open>path\<close>.\<close>

definition np_save :: "string \<Rightarrow> obj \<Rightarrow> world \<Rightarrow> world" where
  "np_save p v w = w\<lparr>files := (p, v) # filter (\<lambda>(q, _). q \<noteq> p) (files w)\<rparr>"

definition do_not_save :: "string list" where
  "do_not_save = [''design'', ''s_data'', ''stand_mean'', ''n_batch'']"

text \<open>
  The loop of lines 177 to 181 over \<^verbatim>\<open>list(model.keys())\<close>. An exception leaves the
  world as the earlier iterations made it.
\<close>

fun save_loop :: "string \<Rightarrow> model \<Rightarrow> world \<Rightarrow> (error + unit) \<times> world" where
  "save_loop fldr_name [] w = (Inr (), w)"
| "save_loop fldr_name ((key, v) # kvs) w =
     (if key \<notin> set do_not_save then
        (case nbytes v of
           Inl e \<Rightarrow> (Inl e, w)
         | Inr sz \<Rightarrow>
             save_loop fldr_name kvs
               (np_save (fldr_name @ ''/'' @ key @ ''.npy'') v (w\<lparr>stdout := stdout w @ [(key, sz)]\<rparr>)))
      else save_loop fldr_name kvs w)"

definition saveHarmonizationModel :: "model \<Rightarrow> string \<Rightarrow> world \<Rightarrow> (error + unit) \<times> world" where
  "saveHarmonizationModel model fldr_name w =
     (if path_exists w fldr_name then
        (Inl (ValueError (''Model folder already exists: '' @ fldr_name @
                          '' Change name or delete to save.'')), w)
      else
        (case makedirs fldr_name w of
           Inl e \<Rightarrow> (Inl e, w)
         | Inr w' \<Rightarrow> save_loop fldr_name model w'))"

subsection \<open>The covariate table\<close>

text \<open>
  A pandas DataFrame, column by column: a column holds labels (the sites) or numbers.
  Every column of a table has \<open>nrow\<close> entries and there are as many columns as names.
  \<^verbatim>\<open>np.array(covars, dtype='object')\<close> keeps the same columns, so the object array is
  the same record. Column names are taken to be distinct, for which
  \<^verbatim>\<open>columns.get_loc\<close> answers with a position.
\<close>

datatype 'a column = LabelCol "'a list" | NumCol "real list"

record 'a DataFrame =
  columns :: "string list"
  coldata :: "'a column list"
  nrow :: nat

definition get_loc :: "string list \<Rightarrow> string \<Rightarrow> error + nat" where
  "get_loc cols c = (if c \<in> set cols then Inr (index_of cols c) else Inl (KeyError c))"

text \<open>\<^verbatim>\<open>covars[:, j]\<close>\<close>

definition column_at :: "'a column list \<Rightarrow> nat \<Rightarrow> error + 'a column" where
  "column_at cs j = (if j < length cs then Inr (cs ! j) else Inl IndexError)"

text \<open>\<^verbatim>\<open>.astype(float)\<close>: a label is not a number.\<close>

fun astype_float :: "'a column \<Rightarrow> error + real list" where
  "astype_float (NumCol rs) = Inr rs"
| "astype_float (LabelCol ls) = Inl (ValueError ''could not convert string to float'')"

text \<open>\<^verbatim>\<open>np.unique(column, return_inverse=True)[-1]\<close>\<close>

fun column_codes :: "'a::linorder column \<Rightarrow> nat list" where
  "column_codes (LabelCol ls) = np_unique_inverse ls"
| "column_codes (NumCol rs) = np_unique_inverse rs"

fun mapE :: "('a \<Rightarrow> error + 'b) \<Rightarrow> 'a list \<Rightarrow> error + 'b list" where
  "mapE f [] = Inr []"
| "mapE f (x # xs) = bindE (f x) (\<lambda>y. bindE (mapE f xs) (\<lambda>ys. Inr (y # ys)))"

record info_dict =
  batch_levels :: "nat list"
  n_batch :: nat
  n_sample :: nat
  sample_per_batch :: "nat list"
  batch_info :: "nat list list"

subsection \<open>Smoothing model and external routines\<close>

text \<open>
  The table behind the additive model: a Python dictionary in insertion order while
  it is built, then \<^verbatim>\<open>pd.DataFrame(df_gam)\<close>.
\<close>

type_synonym dict = "(string \<times> real list) list"

record frame =
  f_nrow :: nat
  f_cols :: dict

text \<open>\<^verbatim>\<open>d[k] = v\<close>: an existing key keeps its place, a new key goes last.\<close>

fun dict_set :: "string \<Rightarrow> real list \<Rightarrow> dict \<Rightarrow> dict" where
  "dict_set k v [] = [(k, v)]"
| "dict_set k v ((k', v') # kvs) =
     (if k = k' then (k, v) # kvs else (k', v') # dict_set k v kvs)"

text \<open>
  \<^verbatim>\<open>pd.DataFrame(d)\<close>: the arrays must have one length (the number of rows); no
  column, no row.
\<close>

definition pd_DataFrame :: "dict \<Rightarrow> error + frame" where
  "pd_DataFrame d =
     (case d of
        [] \<Rightarrow> Inr \<lparr>f_nrow = 0, f_cols = []\<rparr>
      | (k, v) # kvs \<Rightarrow>
          if \<forall>(k', v') \<in> set kvs. length v' = length v
          then Inr \<lparr>f_nrow = length v, f_cols = d\<rparr>
          else Inl (ValueError ''All arrays must be of the same length''))"

text \<open>The frame as a two-dimensional array, one column per key.\<close>

definition frame_values :: "frame \<Rightarrow> ndarray" where
  "frame_values f = mk (f_nrow f) (length (f_cols f)) (\<lambda>i j. snd (f_cols f ! j) ! i)"

text \<open>\<^verbatim>\<open>df.loc[:, 'y'] = v\<close>\<close>

definition set_y :: "frame \<Rightarrow> real list \<Rightarrow> error + frame" where
  "set_y f v =
     (if length v = f_nrow f then Inr (f\<lparr>f_cols := dict_set ''y'' v (f_cols f)\<rparr>)
      else Inl (ValueError ''Length of values does not match length of index''))"

text \<open>The spline basis object of statsmodels, as far as this program reads it.\<close>

record bsplines =
  basis :: ndarray
  bs_df :: "nat list"
  bs_degree :: "nat list"

record smooth_model =
  perform_smoothing :: bool
  smooth_terms :: "string list"
  smooth_cols :: "nat list"
  bsplines_constructor :: "bsplines option"
  smooth_design :: "ndarray option"
  formula :: "string option"
  df_gam :: "frame option"

text \<open>
  The routines of numpy and statsmodels that the program calls and that do numerical
  work of their own, and the two estimation steps of \<^verbatim>\<open>neuroCombat\<close>, whose code is
  not part of this file. Each may raise.
  \<^item> \<open>linalg_inv\<close>: \<^verbatim>\<open>np.linalg.inv\<close>;
  \<^item> \<open>BSplines\<close>: \<^verbatim>\<open>BSplines(x, df=..., degree=...)\<close>;
  \<^item> \<open>gam_fit\<close>: \<^verbatim>\<open>GLMGam.from_formula(formula, data, smoother, alpha).fit().params\<close>;
  \<^item> \<open>select_penweight\<close>: \<^verbatim>\<open>GLMGam.from_formula(...).select_penweight()[0]\<close>;
  \<^item> \<open>fit_LS_model_and_find_priors\<close> and \<open>find_parametric_adjustments\<close>, the
    latter returning \<open>(gamma_star, delta_star)\<close>.
\<close>

record 'ls externals =
  linalg_inv :: "ndarray \<Rightarrow> error + ndarray"
  BSplines :: "ndarray \<Rightarrow> nat list \<Rightarrow> nat list \<Rightarrow> error + bsplines"
  gam_fit :: "string \<Rightarrow> frame \<Rightarrow> bsplines \<Rightarrow> real list \<Rightarrow> error + real list"
  select_penweight :: "string \<Rightarrow> frame \<Rightarrow> bsplines \<Rightarrow> real list \<Rightarrow> error + real list"
  fit_LS_model_and_find_priors :: "ndarray \<Rightarrow> ndarray \<Rightarrow> info_dict \<Rightarrow> error + 'ls"
  find_parametric_adjustments :: "ndarray \<Rightarrow> 'ls \<Rightarrow> info_dict \<Rightarrow> error + ndarray \<times> ndarray"

subsection \<open>\<^verbatim>\<open>make_design_matrix\<close> and \<^verbatim>\<open>adjust_data_final\<close>\<close>

text \<open>
  Modelled from the spec: \<^verbatim>\<open>make_design_matrix\<close> of \<^verbatim>\<open>neuroCombat\<close>, which is
  imported and not defined in this file. Section 4.1: the batch column is expanded to
  N_batches one-hot indicator columns, ordered by ascending site code, followed by one
  column per numeric covariate in the given order; no intercept column; it fails if
  the site column is absent. Categorical columns are outside the spec (the caller
  passes none).
\<close>

definition make_design_matrix ::
  "'a::linorder DataFrame \<Rightarrow> nat \<Rightarrow> nat list \<Rightarrow> nat list \<Rightarrow> error + ndarray" where
  "make_design_matrix Y batch_col cat_cols num_cols =
     (if cat_cols \<noteq> [] then Inl (ExternalError ''categorical columns'')
      else
        bindE (column_at (coldata Y) batch_col) (\<lambda>bc.
        bindE (mapE (\<lambda>c. bindE (column_at (coldata Y) c) astype_float) num_cols) (\<lambda>nums.
          let batch = column_codes bc;
              nb = length (np_unique batch)
          in Inr (mk (nrow Y) (nb + length num_cols)
                    (\<lambda>i j. if j < nb then (if batch ! i = j then 1 else 0)
                           else nums ! (j - nb) ! i)))))"

text \<open>
  Modelled from the spec: \<^verbatim>\<open>adjust_data_final\<close> of \<^verbatim>\<open>neuroCombat\<close>, which is
  imported and not defined in this file. Section 4.6: for each site's samples,
  subtract that site's gamma_star (per feature), divide by the square root of that
  site's delta_star, rescale by the square root of var_pooled, and add back
  stand_mean; the output has the shape of s_data (features by samples). A sample that
  no site lists keeps its standardized value before the rescaling.
\<close>

definition site_of :: "info_dict \<Rightarrow> nat \<Rightarrow> nat option" where
  "site_of info s =
     (case filter (\<lambda>b. s \<in> set (batch_info info ! b)) [0..<length (batch_info info)] of
        [] \<Rightarrow> None | b # _ \<Rightarrow> Some b)"

definition adjust_data_final ::
  "ndarray \<Rightarrow> ndarray \<Rightarrow> ndarray \<Rightarrow> ndarray \<Rightarrow> ndarray \<Rightarrow> ndarray \<Rightarrow> info_dict \<Rightarrow> ndarray" where
  "adjust_data_final s_data design gamma_star delta_star stand_mean var_pooled info =
     mk (nrows s_data) (ncols s_data)
       (\<lambda>i s.
          (case site_of info s of
             None \<Rightarrow> cell s_data i s
           | Some b \<Rightarrow> (cell s_data i s - cell gamma_star b i) / sqrt (cell delta_star b i))
          * sqrt (cell var_pooled i 0) + cell stand_mean i s)"

subsection \<open>\<^verbatim>\<open>StandardizeAcrossFeatures\<close>\<close>

text \<open>
  The loop of lines 138 to 145, one additive model per feature: the feature becomes
  the column \<^verbatim>\<open>y\<close> of the table, the model is fitted with the initial penalty weight,
  the weight found by \<^verbatim>\<open>select_penweight\<close> replaces it, the model is fitted again and
  the coefficients of the second fit become column \<open>i\<close> of \<open>B_hat\<close>.
\<close>

fun gam_loop ::
  "'ls externals \<Rightarrow> string \<Rightarrow> bsplines \<Rightarrow> real list \<Rightarrow> ndarray \<Rightarrow> nat list \<Rightarrow> frame \<Rightarrow> ndarray
     \<Rightarrow> error + ndarray" where
  "gam_loop ext fml bs alpha X [] df B_hat = Inr B_hat"
| "gam_loop ext fml bs alpha X (i # is) df B_hat =
     bindE (set_y df (row X i)) (\<lambda>df.
     bindE (gam_fit ext fml df bs alpha) (\<lambda>res_bs.
     bindE (select_penweight ext fml df bs alpha) (\<lambda>alpha_optim.
     bindE (gam_fit ext fml df bs alpha_optim) (\<lambda>params.
     bindE (set_col B_hat i params) (\<lambda>B_hat.
       gam_loop ext fml bs alpha X is df B_hat)))))"

text \<open>Lines 130 to 132: what the function prints.\<close>

definition StandardizeAcrossFeatures_stdout :: "ndarray \<Rightarrow> smooth_model \<Rightarrow> string list" where
  "StandardizeAcrossFeatures_stdout X sm =
     (if perform_smoothing sm \<and> nrows X > 10 then
        [''WARNING: more than 10 variables will be harmonized with smoothing model.'',
         '' Computation will take some time. For linear model (faster) remove arg: smooth_terms.'']
      else [])"

text \<open>
  Lines 123 to 147: the design matrix in use and the coefficients. With smoothing the
  design is \<^verbatim>\<open>smooth_model['smooth_design']\<close>; a field that is still \<^verbatim>\<open>None\<close> has
  no shape.
\<close>

definition estimate_B_hat ::
  "'ls externals \<Rightarrow> ndarray \<Rightarrow> ndarray \<Rightarrow> smooth_model \<Rightarrow> error + ndarray \<times> ndarray" where
  "estimate_B_hat ext X design sm =
     (if perform_smoothing sm then
        (case (smooth_design sm, bsplines_constructor sm, formula sm, df_gam sm) of
           (Some design, Some bs, Some fml, Some df) \<Rightarrow>
             (let alpha = replicate (length (smooth_cols sm)) 1;
                  B_hat = zeros (ncols design) (nrows X)
              in bindE (gam_loop ext fml bs alpha X [0..<nrows X] df B_hat)
                   (\<lambda>B_hat. Inr (design, B_hat)))
         | _ \<Rightarrow> Inl AttributeError)
      else
        bindE (dot (T design) design) (\<lambda>DtD.
        bindE (linalg_inv ext DtD) (\<lambda>DtD_inv.
        bindE (dot DtD_inv (T design)) (\<lambda>P.
        bindE (dot P (T X)) (\<lambda>B_hat. Inr (design, B_hat))))))"

definition StandardizeAcrossFeatures ::
  "'ls externals \<Rightarrow> ndarray \<Rightarrow> ndarray \<Rightarrow> info_dict \<Rightarrow> smooth_model
     \<Rightarrow> error + ndarray \<times> ndarray \<times> ndarray \<times> ndarray \<times> real list" where
  "StandardizeAcrossFeatures ext X design info sm =
     bindE (estimate_B_hat ext X design sm) (\<lambda>(design, B_hat).
     bindE (dot_vm (map (\<lambda>c. real c / real (n_sample info)) (sample_per_batch info))
                   (take_rows (n_batch info) B_hat)) (\<lambda>grand_mean.
     bindE (dot design B_hat) (\<lambda>DB.
     bindE (broadcast (-) X (T DB)) (\<lambda>R.
     bindE (dot (map_cells (\<lambda>x. x\<^sup>2) R)
                (map_cells (\<lambda>x. x / real (n_sample info)) (ones (n_sample info) 1))) (\<lambda>var_pooled.
     bindE (dot (reshape_col grand_mean) (ones 1 (n_sample info))) (\<lambda>stand_mean.
     bindE (dot (zero_first_cols (n_batch info) design) B_hat) (\<lambda>TB.
     bindE (iadd stand_mean (T TB)) (\<lambda>stand_mean.
     bindE (broadcast (-) X stand_mean) (\<lambda>num.
     bindE (dot (map_cells sqrt var_pooled) (ones 1 (n_sample info))) (\<lambda>sd.
     bindE (broadcast (/) num sd) (\<lambda>s_data.
       Inr (s_data, stand_mean, var_pooled, B_hat, grand_mean))))))))))))"

subsection \<open>\<^verbatim>\<open>harmonizationLearn\<close>\<close>

text \<open>Lines 79 to 81: one formula term and one table column per batch level.\<close>

fun site_terms :: "ndarray \<Rightarrow> nat list \<Rightarrow> string \<times> dict \<Rightarrow> error + string \<times> dict" where
  "site_terms design [] st = Inr st"
| "site_terms design (b # bs) (fml, d) =
     bindE (col design b) (\<lambda>xb.
       site_terms design bs
         (fml @ ''x'' @ str_nat b @ '' + '', dict_set (''x'' @ str_nat b) xb d))"

text \<open>Lines 82 to 85: the same for every numeric column that is not smooth.\<close>

fun covariate_terms ::
  "'a column list \<Rightarrow> nat list \<Rightarrow> nat list \<Rightarrow> string \<times> dict \<Rightarrow> error + string \<times> dict" where
  "covariate_terms covars scols [] st = Inr st"
| "covariate_terms covars scols (c # cs) (fml, d) =
     (if c \<notin> set scols then
        bindE (bindE (column_at covars c) astype_float) (\<lambda>xc.
          covariate_terms covars scols cs
            (fml @ ''c'' @ str_nat c @ '' + '', dict_set (''c'' @ str_nat c) xc d))
      else covariate_terms covars scols cs (fml, d))"

text \<open>Lines 73 to 94: the additional setup when smoothing is performed.\<close>

definition smoothing_setup ::
  "'ls externals \<Rightarrow> 'a DataFrame \<Rightarrow> nat list \<Rightarrow> nat list \<Rightarrow> ndarray \<Rightarrow> smooth_model
     \<Rightarrow> error + smooth_model" where
  "smoothing_setup ext covars levels num_cols design sm =
     bindE (mapE (\<lambda>c. bindE (column_at (coldata covars) c) astype_float) (smooth_cols sm)) (\<lambda>xs.
     let X_spline = mk (nrow covars) (length (smooth_cols sm)) (\<lambda>i j. xs ! j ! i) in
     bindE (BSplines ext X_spline (replicate (length (smooth_cols sm)) 10)
                                  (replicate (length (smooth_cols sm)) 3)) (\<lambda>bs.
     bindE (site_terms design levels (''y ~ '', [])) (\<lambda>st.
     bindE (covariate_terms (coldata covars) (smooth_cols sm) num_cols st) (\<lambda>(fml, d).
     let fml = take (length fml - 2) fml @ ''- 1'' in
     bindE (pd_DataFrame d) (\<lambda>df.
     bindE (concatenate1 (frame_values df) (basis bs)) (\<lambda>design_gam.
       Inr (sm\<lparr>bsplines_constructor := Some bs, formula := Some fml,
               df_gam := Some df, smooth_design := Some design_gam\<rparr>)))))))"

text \<open>
  Lines 39 to 95: the transposed data, the design matrix, the batch information and
  the smoothing model. After line 59 the batch column of the object array holds the
  site codes, so the second \<^verbatim>\<open>np.unique\<close> (line 61) reads the codes.
\<close>

definition harmonizationLearn_setup ::
  "'ls externals \<Rightarrow> ndarray \<Rightarrow> 'a::linorder DataFrame \<Rightarrow> string list
     \<Rightarrow> error + ndarray \<times> ndarray \<times> info_dict \<times> smooth_model" where
  "harmonizationLearn_setup ext data covars terms =
     (let data = T data in
      bindE (get_loc (columns covars) ''SITE'') (\<lambda>batch_col.
      let cat_cols = [] in
      bindE (mapE (get_loc (columns covars))
                  (filter (\<lambda>c. c \<noteq> ''SITE'') (columns covars))) (\<lambda>num_cols.
      bindE (mapE (get_loc (columns covars))
                  (filter (\<lambda>c. c \<in> set terms) (columns covars))) (\<lambda>smooth_cols.
      let smooth_model = \<lparr>perform_smoothing = length terms > 0,
                          smooth_terms = terms, smooth_cols = smooth_cols,
                          bsplines_constructor = None, smooth_design = None,
                          formula = None, df_gam = None\<rparr> in
      bindE (column_at (coldata covars) batch_col) (\<lambda>bc.
      let batch = column_codes bc;
          covars = covars\<lparr>coldata := (coldata covars)[batch_col := NumCol (map real batch)]\<rparr>;
          batch_levels = np_unique batch;
          sample_per_batch = np_unique_counts batch;
          info_dict = \<lparr>batch_levels = batch_levels, n_batch = length batch_levels,
                       n_sample = nrow covars, sample_per_batch = sample_per_batch,
                       batch_info = map (\<lambda>idx. filter (\<lambda>i. batch ! i = idx) [0..<length batch])
                                        batch_levels\<rparr> in
      bindE (make_design_matrix covars batch_col cat_cols num_cols) (\<lambda>design.
      bindE (if perform_smoothing smooth_model
             then smoothing_setup ext covars batch_levels num_cols design smooth_model
             else Inr smooth_model) (\<lambda>smooth_model.
        Inr (data, design, info_dict, smooth_model))))))))"

text \<open>Lines 96 to 108: the ComBat steps, the model dictionary and the transposed result.\<close>

definition harmonizationLearn ::
  "'ls externals \<Rightarrow> ndarray \<Rightarrow> 'a::linorder DataFrame \<Rightarrow> string list \<Rightarrow> error + model \<times> ndarray" where
  "harmonizationLearn ext data covars terms =
     bindE (harmonizationLearn_setup ext data covars terms)
       (\<lambda>(data, design, info_dict, smooth_model).
     bindE (StandardizeAcrossFeatures ext data design info_dict smooth_model)
       (\<lambda>(s_data, stand_mean, var_pooled, B_hat, grand_mean).
     bindE (fit_LS_model_and_find_priors ext s_data design info_dict) (\<lambda>LS_dict.
     bindE (find_parametric_adjustments ext s_data LS_dict info_dict)
       (\<lambda>(gamma_star, delta_star).
     let bayes_data = adjust_data_final s_data design gamma_star delta_star stand_mean
                        var_pooled info_dict;
         model = [(''design'', Arr2 design), (''s_data'', Arr2 s_data),
                  (''stand_mean'', Arr2 stand_mean), (''var_pooled'', Arr2 var_pooled),
                  (''B_hat'', Arr2 B_hat), (''grand_mean'', Arr1 grand_mean),
                  (''gamma_star'', Arr2 gamma_star), (''delta_star'', Arr2 delta_star),
                  (''n_batch'', IntObj (int (n_batch info_dict)))];
         bayes_data = T bayes_data
     in Inr (model, bayes_data)))))"

subsection \<open>A concrete setting for examples\<close>

text \<open>
  Stand-ins for the external routines, used only to run the program on concrete
  inputs: the exact inverse of a matrix with one or two rows, a spline basis made of
  the cubes of the smooth covariates, a fit that returns zero coefficients, a penalty
  search that keeps the weight, and site adjustments of shift 0 and scale 1.
\<close>

definition inv_small :: "ndarray \<Rightarrow> error + ndarray" where
  "inv_small A =
     (if nrows A = 1 \<and> ncols A = 1 then
        (if cell A 0 0 = 0 then Inl LinAlgError else Inr (mk 1 1 (\<lambda>i j. 1 / cell A 0 0)))
      else if nrows A = 2 \<and> ncols A = 2 then
        (let det = cell A 0 0 * cell A 1 1 - cell A 0 1 * cell A 1 0 in
         if det = 0 then Inl LinAlgError
         else Inr (mk 2 2 (\<lambda>i j. (if i = j then cell A (1 - i) (1 - j) else - cell A i j) / det)))
      else Inl LinAlgError)"

definition example_externals :: "unit externals" where
  "example_externals =
     \<lparr>linalg_inv = inv_small,
      BSplines = (\<lambda>X df degree.
         Inr \<lparr>basis = map_cells (\<lambda>x. x ^ 3) X, bs_df = df, bs_degree = degree\<rparr>),
      gam_fit = (\<lambda>fml df bs alpha.
         Inr (replicate (length (f_cols df) - 1 + ncols (basis bs)) 0)),
      select_penweight = (\<lambda>fml df bs alpha. Inr alpha),
      fit_LS_model_and_find_priors = (\<lambda>s_data design info. Inr ()),
      find_parametric_adjustments = (\<lambda>s_data LS info.
         Inr (zeros (n_batch info) (nrows s_data), ones (n_batch info) (nrows s_data)))\<rparr>"

text \<open>Four samples of one site with a covariate, and one feature.\<close>

definition example_covars :: "string DataFrame" where
  "example_covars =
     \<lparr>columns = [''age'', ''SITE''],
      coldata = [NumCol [-1, -1, 1, 1], LabelCol [''A'', ''A'', ''A'', ''A'']],
      nrow = 4\<rparr>"

definition example_data :: ndarray where
  "example_data = mk 4 1 (\<lambda>i j. 2 * real i)"

text \<open>Four samples of two sites without covariates, and one feature.\<close>

definition example_covars2 :: "string DataFrame" where
  "example_covars2 =
     \<lparr>columns = [''SITE''], coldata = [LabelCol [''B'', ''A'', ''B'', ''A'']], nrow = 4\<rparr>"

definition example_data2 :: ndarray where
  "example_data2 = mk 4 1 (\<lambda>i j. [6, 0, 10, 4] ! i)"

section \<open>Properties\<close>

subsection \<open>Arrays, results and the standardization steps\<close>

lemma bindE_Inl [simp]: "bindE (Inl e) f = Inl e"
  by (simp add: bindE_def)

lemma bindE_Inr [simp]: "bindE (Inr x) f = f x"
  by (simp add: bindE_def)

lemma bindE_eq_Inr: "bindE m f = Inr y \<longleftrightarrow> (\<exists>x. m = Inr x \<and> f x = Inr y)"
  by (cases m) simp_all

lemma nrows_mk [simp]: "nrows (mk r c f) = r"
  by (simp add: mk_def)

lemma ncols_mk [simp]: "ncols (mk r c f) = c"
  by (simp add: mk_def)

lemma cell_mk [simp]: "i < r \<Longrightarrow> j < c \<Longrightarrow> cell (mk r c f) i j = f i j"
  by (simp add: mk_def cell_def)

lemma mk_cong: "(\<And>i j. i < r \<Longrightarrow> j < c \<Longrightarrow> f i j = g i j) \<Longrightarrow> mk r c f = mk r c g"
  by (simp add: mk_def)

lemma sum_list_upt: "sum_list (map f [0..<n]) = (\<Sum>k<n. f k)"
  by (induction n) simp_all

lemma dot_eq_Inr:
  "dot A B = Inr C \<longleftrightarrow>
     ncols A = nrows B \<and>
     C = mk (nrows A) (ncols B) (\<lambda>i j. \<Sum>k<ncols A. cell A i k * cell B k j)"
  by (auto simp: dot_def sum_list_upt)

lemma dot_vm_eq_Inr:
  "dot_vm v B = Inr g \<longleftrightarrow>
     length v = nrows B \<and> g = map (\<lambda>j. \<Sum>k<length v. v ! k * cell B k j) [0..<ncols B]"
  by (auto simp: dot_vm_def sum_list_upt)

lemma SAF_Inr_D:
  assumes "StandardizeAcrossFeatures ext X design info sm = Inr (s, m, v, B, g)"
  obtains D DB R m0 TB num sd where
    "estimate_B_hat ext X design sm = Inr (D, B)"
    "dot_vm (map (\<lambda>c. real c / real (n_sample info)) (sample_per_batch info))
            (take_rows (n_batch info) B) = Inr g"
    "dot D B = Inr DB"
    "broadcast (-) X (T DB) = Inr R"
    "dot (map_cells (\<lambda>x. x\<^sup>2) R)
         (map_cells (\<lambda>x. x / real (n_sample info)) (ones (n_sample info) 1)) = Inr v"
    "dot (reshape_col g) (ones 1 (n_sample info)) = Inr m0"
    "dot (zero_first_cols (n_batch info) D) B = Inr TB"
    "iadd m0 (T TB) = Inr m"
    "broadcast (-) X m = Inr num"
    "dot (map_cells sqrt v) (ones 1 (n_sample info)) = Inr sd"
    "broadcast (/) num sd = Inr s"
  using assms unfolding StandardizeAcrossFeatures_def
  by (auto simp: bindE_eq_Inr)



lemma bidx [simp]: "i < n \<Longrightarrow> (if n = Suc 0 then 0 else i) = i"
  by auto

lemma sum_lessThan_one [simp]: "(\<Sum>k<Suc 0. f k) = (f 0 :: real)"
  by simp

lemma dotD:
  assumes "dot A B = Inr C"
  shows "ncols A = nrows B" "nrows C = nrows A" "ncols C = ncols B"
    and "\<And>i j. i < nrows A \<Longrightarrow> j < ncols B \<Longrightarrow>
           cell C i j = (\<Sum>k<ncols A. cell A i k * cell B k j)"
  using assms by (simp_all add: dot_eq_Inr)

lemma T_simps [simp]:
  "nrows (T A) = ncols A" "ncols (T A) = nrows A"
  "i < ncols A \<Longrightarrow> j < nrows A \<Longrightarrow> cell (T A) i j = cell A j i"
  by (simp_all add: T_def)

lemma ones_simps [simp]:
  "nrows (ones r c) = r" "ncols (ones r c) = c"
  "i < r \<Longrightarrow> j < c \<Longrightarrow> cell (ones r c) i j = 1"
  by (simp_all add: ones_def)

lemma zeros_simps [simp]:
  "nrows (zeros r c) = r" "ncols (zeros r c) = c"
  "i < r \<Longrightarrow> j < c \<Longrightarrow> cell (zeros r c) i j = 0"
  by (simp_all add: zeros_def)

lemma map_cells_simps [simp]:
  "nrows (map_cells f A) = nrows A" "ncols (map_cells f A) = ncols A"
  "i < nrows A \<Longrightarrow> j < ncols A \<Longrightarrow> cell (map_cells f A) i j = f (cell A i j)"
  by (simp_all add: map_cells_def)

lemma take_rows_simps [simp]:
  "nrows (take_rows n A) = min n (nrows A)" "ncols (take_rows n A) = ncols A"
  "i < n \<Longrightarrow> i < nrows A \<Longrightarrow> j < ncols A \<Longrightarrow> cell (take_rows n A) i j = cell A i j"
  by (simp_all add: take_rows_def)

lemma zero_first_cols_simps [simp]:
  "nrows (zero_first_cols n A) = nrows A" "ncols (zero_first_cols n A) = ncols A"
  "i < nrows A \<Longrightarrow> j < ncols A \<Longrightarrow>
     cell (zero_first_cols n A) i j = (if j < n then 0 else cell A i j)"
  by (simp_all add: zero_first_cols_def)

lemma reshape_col_simps [simp]:
  "nrows (reshape_col v) = length v" "ncols (reshape_col v) = 1"
  "i < length v \<Longrightarrow> cell (reshape_col v) i 0 = v ! i"
  by (simp_all add: reshape_col_def)

lemma broadcast_same:
  assumes "nrows A = nrows B" "ncols A = ncols B"
  shows "broadcast f A B = Inr (mk (nrows A) (ncols A) (\<lambda>i j. f (cell A i j) (cell B i j)))"
  using assms by (auto simp: broadcast_def bdim_def intro!: mk_cong)

lemma broadcast_shape:
  assumes "broadcast f A B = Inr C"
  shows "bdim (nrows A) (nrows B) = Some (nrows C)" "bdim (ncols A) (ncols B) = Some (ncols C)"
  using assms by (auto simp: broadcast_def split: option.splits)

lemma iadd_same:
  assumes "nrows B = nrows A" "ncols B = ncols A"
  shows "iadd A B = Inr (mk (nrows A) (ncols A) (\<lambda>i j. cell A i j + cell B i j))"
  using assms by (auto simp: iadd_def intro!: mk_cong)

lemma iadd_shape:
  "iadd A B = Inr C \<Longrightarrow> nrows C = nrows A \<and> ncols C = ncols A"
  by (auto simp: iadd_def split: if_splits)

lemma set_col_shape:
  "set_col B i v = Inr B' \<Longrightarrow> nrows B' = nrows B \<and> ncols B' = ncols B"
  by (auto simp: set_col_def split: if_splits)

lemma gam_loop_shape:
  "gam_loop ext fml bs alpha X is df B0 = Inr B \<Longrightarrow> nrows B = nrows B0 \<and> ncols B = ncols B0"
proof (induction "is" arbitrary: df B0)
  case Nil
  then show ?case by simp
next
  case (Cons i "is")
  from Cons.prems obtain df1 p B1 where
    step: "set_col B0 i p = Inr B1" and rest: "gam_loop ext fml bs alpha X is df1 B1 = Inr B"
    by (auto simp: bindE_eq_Inr)
  from Cons.IH [OF rest] set_col_shape [OF step] show ?case by simp
qed

lemma estimate_B_hat_smooth:
  assumes "perform_smoothing sm" "estimate_B_hat ext X design sm = Inr (D, B)"
  shows "smooth_design sm = Some D \<and> nrows B = ncols D \<and> ncols B = nrows X"
  using assms
  by (auto simp: estimate_B_hat_def bindE_eq_Inr Let_def split: option.splits
           dest!: gam_loop_shape)

lemma estimate_B_hat_linear:
  assumes "\<not> perform_smoothing sm" "estimate_B_hat ext X design sm = Inr (D, B)"
  shows "D = design" "nrows design = ncols X" "ncols B = nrows X"
    and "\<exists>Ginv. linalg_inv ext (mk (ncols design) (ncols design)
                     (\<lambda>k l. \<Sum>t<nrows design. cell design t k * cell design t l)) = Inr Ginv \<and>
                 ncols Ginv = ncols design \<and> nrows B = nrows Ginv \<and>
                 (\<forall>k<nrows Ginv. \<forall>i<nrows X. cell B k i =
                    (\<Sum>t<nrows design. (\<Sum>l<ncols design. cell Ginv k l * cell design t l)
                                        * cell X i t))"
proof -
  from assms obtain G Ginv P where
    G: "dot (T design) design = Inr G" and inv: "linalg_inv ext G = Inr Ginv" and
    P: "dot Ginv (T design) = Inr P" and B: "dot P (T X) = Inr B" and D: "D = design"
    by (auto simp: estimate_B_hat_def bindE_eq_Inr)
  show "D = design" by (rule D)
  from dotD(1) [OF P] have cG: "ncols Ginv = ncols design" by simp
  from dotD(1) [OF B] dotD(3) [OF P] show nX: "nrows design = ncols X" by simp
  from dotD(3) [OF B] show "ncols B = nrows X" by simp
  have Geq: "G = mk (ncols design) (ncols design)
                  (\<lambda>k l. \<Sum>t<nrows design. cell design t k * cell design t l)"
    using G by (auto simp: dot_eq_Inr intro!: mk_cong sum.cong)
  have rB: "nrows B = nrows Ginv"
    using dotD(2) [OF B] dotD(2) [OF P] by simp
  have cells: "cell B k i =
      (\<Sum>t<nrows design. (\<Sum>l<ncols design. cell Ginv k l * cell design t l) * cell X i t)"
    if k: "k < nrows Ginv" and i: "i < nrows X" for k i
  proof -
    have "cell B k i = (\<Sum>t<ncols P. cell P k t * cell (T X) t i)"
      using dotD(4) [OF B, of k i] dotD(2) [OF P] k i by simp
    also have "\<dots> = (\<Sum>t<nrows design. cell P k t * cell X i t)"
      using dotD(3) [OF P] nX i by (auto intro!: sum.cong)
    also have "\<dots> = (\<Sum>t<nrows design.
                        (\<Sum>l<ncols design. cell Ginv k l * cell design t l) * cell X i t)"
      using dotD(4) [OF P] k cG by (auto intro!: sum.cong)
    finally show ?thesis .
  qed
  from inv Geq cG rB cells show "\<exists>Ginv. linalg_inv ext (mk (ncols design) (ncols design)
                     (\<lambda>k l. \<Sum>t<nrows design. cell design t k * cell design t l)) = Inr Ginv \<and>
                 ncols Ginv = ncols design \<and> nrows B = nrows Ginv \<and>
                 (\<forall>k<nrows Ginv. \<forall>i<nrows X. cell B k i =
                    (\<Sum>t<nrows design. (\<Sum>l<ncols design. cell Ginv k l * cell design t l)
                                        * cell X i t))"
    by auto
qed

lemma estimate_B_hat_ncols:
  "estimate_B_hat ext X design sm = Inr (D, B) \<Longrightarrow> ncols B = nrows X"
  using estimate_B_hat_smooth [of sm ext X design D B]
        estimate_B_hat_linear(3) [of sm ext X design D B]
  by blast

subsection \<open>The exporter\<close>

lemma np_save_dirs: "dirs (np_save p v w) = dirs w"
  by (simp add: np_save_def)

lemma save_loop_dirs: "dirs (snd (save_loop fldr_name m w)) = dirs w"
proof (induction fldr_name m w rule: save_loop.induct)
  case (1 fldr_name w)
  show ?case by simp
next
  case (2 fldr_name key v kvs w)
  show ?case
  proof (cases "key \<in> set do_not_save")
    case True
    with 2 show ?thesis by simp
  next
    case False
    show ?thesis
    proof (cases "nbytes v")
      case (Inl e)
      with False show ?thesis by simp
    next
      case (Inr sz)
      with False 2 show ?thesis by (simp add: np_save_dirs)
    qed
  qed
qed

lemma save_exists_fails:
  assumes "path_exists w fldr_name"
  shows "saveHarmonizationModel m fldr_name w =
           (Inl (ValueError (''Model folder already exists: '' @ fldr_name @
                             '' Change name or delete to save.'')), w)"
  using assms by (simp add: saveHarmonizationModel_def)

lemma save_twice_fails:
  assumes "saveHarmonizationModel m1 fldr_name w = (r1, w1)"
  shows "isl (fst (saveHarmonizationModel m2 fldr_name w1)) \<and>
         snd (saveHarmonizationModel m2 fldr_name w1) = w1"
proof (cases "path_exists w fldr_name")
  case True
  with assms have "w1 = w" by (simp add: saveHarmonizationModel_def)
  with True show ?thesis by (simp add: saveHarmonizationModel_def)
next
  case False
  show ?thesis
  proof (cases "fldr_name = []")
    case True
    with False assms have w1: "w1 = w"
      by (simp add: saveHarmonizationModel_def makedirs_def)
    with False True show ?thesis
      by (simp add: saveHarmonizationModel_def makedirs_def)
  next
    case nonempty: False
    with False assms have "w1 = snd (save_loop fldr_name m1 (w\<lparr>dirs := fldr_name # dirs w\<rparr>))"
      by (auto simp add: saveHarmonizationModel_def makedirs_def)
    then have "dirs w1 = fldr_name # dirs w"
      by (simp add: save_loop_dirs)
    then have "path_exists w1 fldr_name"
      by (simp add: path_exists_def)
    then show ?thesis by (simp add: saveHarmonizationModel_def)
  qed
qed

text \<open>
  Claim C7. Whenever the target folder already exists, \<^verbatim>\<open>saveHarmonizationModel\<close>
  raises the ValueError that names the folder and leaves the world (directories,
  files, printed lines) exactly as it was; and after any first call on a folder name,
  whatever the two model bundles are, a second call on the same name fails and
  changes nothing, so the files of the first call stay as they are.
\<close>

theorem saveHarmonizationModel_no_overwrite:
  "(path_exists w fldr_name \<longrightarrow>
      saveHarmonizationModel m fldr_name w =
        (Inl (ValueError (''Model folder already exists: '' @ fldr_name @
                          '' Change name or delete to save.'')), w)) \<and>
   (saveHarmonizationModel m1 fldr_name w0 = (r1, w1) \<longrightarrow>
      isl (fst (saveHarmonizationModel m2 fldr_name w1)) \<and>
      snd (saveHarmonizationModel m2 fldr_name w1) = w1 \<and>
      files (snd (saveHarmonizationModel m2 fldr_name w1)) = files w1)"
  using save_exists_fails [of w fldr_name m] save_twice_fails [of m1 fldr_name w0 r1 w1 m2]
  by auto

theorem saveHarmonizationModel_no_overwrite_witness:
  "path_exists \<lparr>dirs = [''m''], files = [], stdout = []\<rparr> ''m'' \<and>
   saveHarmonizationModel [(''B_hat'', Arr1 [1, 2]), (''n_batch'', IntObj 2)] ''m''
       \<lparr>dirs = [''m''], files = [], stdout = []\<rparr> =
     (Inl (ValueError ''Model folder already exists: m Change name or delete to save.''),
      \<lparr>dirs = [''m''], files = [], stdout = []\<rparr>) \<and>
   saveHarmonizationModel [(''B_hat'', Arr1 [1, 2]), (''n_batch'', IntObj 2)] ''m''
       \<lparr>dirs = [], files = [], stdout = []\<rparr> =
     (Inr (), \<lparr>dirs = [''m''], files = [(''m/B_hat.npy'', Arr1 [1, 2])],
               stdout = [(''B_hat'', 16)]\<rparr>) \<and>
   isl (fst (saveHarmonizationModel [(''B_hat'', Arr1 [5])] ''m''
       \<lparr>dirs = [''m''], files = [(''m/B_hat.npy'', Arr1 [1, 2])],
        stdout = [(''B_hat'', 16)]\<rparr>)) \<and>
   files (snd (saveHarmonizationModel [(''B_hat'', Arr1 [5])] ''m''
       \<lparr>dirs = [''m''], files = [(''m/B_hat.npy'', Arr1 [1, 2])],
        stdout = [(''B_hat'', 16)]\<rparr>)) = [(''m/B_hat.npy'', Arr1 [1, 2])]"
proof -
  let ?w = "\<lparr>dirs = [''m''], files = [], stdout = []\<rparr>"
  let ?wa = "\<lparr>dirs = [], files = [], stdout = []\<rparr>"
  let ?wb = "\<lparr>dirs = [''m''], files = [(''m/B_hat.npy'', Arr1 [1, 2])],
             stdout = [(''B_hat'', 16)]\<rparr>"
  let ?mdl = "[(''B_hat'', Arr1 [1, 2]), (''n_batch'', IntObj 2)]"
  have ex: "path_exists ?w ''m''"
    by (simp add: path_exists_def)
  have first: "saveHarmonizationModel ?mdl ''m'' ?wa = (Inr (), ?wb)"
    by (simp add: saveHarmonizationModel_def path_exists_def makedirs_def do_not_save_def
        np_save_def)
  show ?thesis
    using saveHarmonizationModel_no_overwrite
      [of ?w "''m''" ?mdl ?mdl ?wa "Inr ()" ?wb "[(''B_hat'', Arr1 [5])]"] ex first
    by simp
qed

end
